theory Spec2Isabelle
  imports Main
begin

section \<open>Data model\<close>

text \<open>The two structs of \<^verbatim>\<open>main.go\<close>.\<close>

record User =
  ID :: int
  Name :: string
  Email :: string
  Age :: int

record AuthRequest =
  Username :: string
  Password :: string

text \<open>The value of \<^verbatim>\<open>var user User\<close> and of \<^verbatim>\<open>var authReq AuthRequest\<close>.\<close>

definition zeroUser :: User where
  "zeroUser = \<lparr>ID = 0, Name = [], Email = [], Age = 0\<rparr>"

definition zeroAuthRequest :: AuthRequest where
  "zeroAuthRequest = \<lparr>Username = [], Password = []\<rparr>"

section \<open>Library functions the handlers call\<close>

text \<open>
  The service is one Go file, \<^verbatim>\<open>main.go\<close>. Its six handlers call four libraries:
  \<^verbatim>\<open>strconv\<close>, \<^verbatim>\<open>encoding/json\<close>, \<^verbatim>\<open>go-playground/validator/v10\<close> and
  \<^verbatim>\<open>go-pg/pg/v10\<close> over a PostgreSQL table. This section models the part of each
  library that the handlers reach. A Go \<^verbatim>\<open>string\<close> is a sequence of bytes, here a
  \<^typ>\<open>string\<close>; a Go \<^verbatim>\<open>int\<close> is a 64-bit signed integer, here an \<^typ>\<open>int\<close>
  with the wrap-around written out where the handlers compute with it.
\<close>

subsection \<open>strconv.Atoi\<close>

datatype NumError = ErrSyntax | ErrRange

definition isDigit :: "char \<Rightarrow> bool" where
  "isDigit c = (48 \<le> (of_char c :: int) \<and> (of_char c :: int) \<le> 57)"

definition maxUint64 :: int where
  "maxUint64 = 2 ^ 64 - 1"

text \<open>
  The digit loop of \<^verbatim>\<open>ParseUint(s, 10, 64)\<close>, with the accumulator \<open>n\<close>: a byte
  that is no decimal digit is a syntax error with value 0; an overflow of the
  unsigned 64-bit accumulator stops the loop at once with the largest value and a
  range error, before the bytes that follow are looked at.
\<close>

fun ParseUint_loop :: "int \<Rightarrow> string \<Rightarrow> int \<times> NumError option" where
  "ParseUint_loop n [] = (n, None)"
| "ParseUint_loop n (c # cs) =
     (if \<not> isDigit c then (0, Some ErrSyntax)
      else if n \<ge> maxUint64 div 10 + 1 then (maxUint64, Some ErrRange)
      else if n * 10 + (of_char c - 48) > maxUint64 then (maxUint64, Some ErrRange)
      else ParseUint_loop (n * 10 + (of_char c - 48)) cs)"

definition ParseUint :: "string \<Rightarrow> int \<times> NumError option" where
  "ParseUint s = (if s = [] then (0, Some ErrSyntax) else ParseUint_loop 0 s)"

text \<open>
  \<^verbatim>\<open>ParseInt(s, 10, 0)\<close>: an optional sign, then \<^verbatim>\<open>ParseUint\<close>; a syntax error
  gives 0, a magnitude outside the signed 64-bit range gives the nearest bound and a
  range error.
\<close>

definition ParseInt :: "string \<Rightarrow> int \<times> NumError option" where
  "ParseInt s =
     (case s of
        [] \<Rightarrow> (0, Some ErrSyntax)
      | c # cs \<Rightarrow>
          (let neg = (c = CHR ''-'');
               s' = (if c = CHR ''+'' \<or> c = CHR ''-'' then cs else s);
               (un, err) = ParseUint s'
           in if err = Some ErrSyntax then (0, Some ErrSyntax)
              else if \<not> neg \<and> un \<ge> 2 ^ 63 then (2 ^ 63 - 1, Some ErrRange)
              else if neg \<and> un > 2 ^ 63 then (- (2 ^ 63), Some ErrRange)
              else (if neg then - un else un, None)))"

text \<open>
  \<^verbatim>\<open>Atoi\<close> has a fast path for strings of 1 to 18 bytes that computes what
  \<^verbatim>\<open>ParseInt\<close> computes there; every other string goes to \<^verbatim>\<open>ParseInt\<close>.
\<close>

definition Atoi :: "string \<Rightarrow> int \<times> NumError option" where
  "Atoi s = ParseInt s"

text \<open>Go's \<^verbatim>\<open>int\<close> arithmetic wraps around at 64 bits.\<close>

definition wrap64 :: "int \<Rightarrow> int" where
  "wrap64 n = (n + 2 ^ 63) mod 2 ^ 64 - 2 ^ 63"

subsection \<open>utf8.RuneCountInString\<close>

text \<open>
  The validator measures a string in runes, not bytes. \<open>first\<close> is the table of lead
  bytes above \<^verbatim>\<open>0x7F\<close>: the length of the encoding and the range accepted for the
  second byte, or \<open>None\<close> for a byte that starts no encoding.
\<close>

definition first :: "int \<Rightarrow> (nat \<times> int \<times> int) option" where
  "first c =
     (if 0xC2 \<le> c \<and> c \<le> 0xDF then Some (2, 0x80, 0xBF)
      else if c = 0xE0 then Some (3, 0xA0, 0xBF)
      else if (0xE1 \<le> c \<and> c \<le> 0xEC) \<or> c = 0xEE \<or> c = 0xEF then Some (3, 0x80, 0xBF)
      else if c = 0xED then Some (3, 0x80, 0x9F)
      else if c = 0xF0 then Some (4, 0x90, 0xBF)
      else if 0xF1 \<le> c \<and> c \<le> 0xF3 then Some (4, 0x80, 0xBF)
      else if c = 0xF4 then Some (4, 0x80, 0x8F)
      else None)"

definition inRange :: "char \<Rightarrow> int \<Rightarrow> int \<Rightarrow> bool" where
  "inRange c lo hi = (lo \<le> of_char c \<and> (of_char c :: int) \<le> hi)"

text \<open>
  The number of bytes one iteration of the counting loop consumes, at lead byte \<open>c\<close>
  followed by \<open>rest\<close>: 1 for ASCII, for an invalid lead byte and for a short or
  invalid encoding, else the length of the encoding.
\<close>

definition runeSize :: "char \<Rightarrow> string \<Rightarrow> nat" where
  "runeSize c rest =
     (if (of_char c :: int) < 0x80 then 1
      else case first (of_char c) of
        None \<Rightarrow> 1
      | Some (sz, lo, hi) \<Rightarrow>
          if 1 + length rest < sz then 1
          else if \<not> inRange (rest ! 0) lo hi then 1
          else if sz = 2 then 2
          else if \<not> inRange (rest ! 1) 0x80 0xBF then 1
          else if sz = 3 then 3
          else if \<not> inRange (rest ! 2) 0x80 0xBF then 1
          else 4)"

function RuneCountInString :: "string \<Rightarrow> nat" where
  "RuneCountInString [] = 0"
| "RuneCountInString (c # rest) = Suc (RuneCountInString (drop (runeSize c rest - 1) rest))"
  by pat_completeness auto
termination
  by (relation "measure length") auto

subsection \<open>validator.Struct\<close>

text \<open>
  The tags of the \<^verbatim>\<open>validate\<close> struct tags of \<^verbatim>\<open>User\<close>, and the two kinds of
  field value they are run on. The regular expression behind the \<^verbatim>\<open>email\<close> tag is
  the library's own; it is the parameter \<open>rx\<close> throughout, and everything proved
  holds for every \<open>rx\<close>.
\<close>

datatype Tag = Required | Min int | Max int | EmailTag | Gte int | Lte int

datatype Value = StringValue string | IntValue int

fun runTag :: "(string \<Rightarrow> bool) \<Rightarrow> Tag \<Rightarrow> Value \<Rightarrow> bool" where
  "runTag rx Required (StringValue s) = (s \<noteq> [])"
| "runTag rx Required (IntValue n) = (n \<noteq> 0)"
| "runTag rx (Min p) (StringValue s) = (int (RuneCountInString s) \<ge> p)"
| "runTag rx (Min p) (IntValue n) = (n \<ge> p)"
| "runTag rx (Max p) (StringValue s) = (int (RuneCountInString s) \<le> p)"
| "runTag rx (Max p) (IntValue n) = (n \<le> p)"
| "runTag rx EmailTag (StringValue s) = rx s"
| "runTag rx EmailTag (IntValue n) = rx ''<int Value>''"
| "runTag rx (Gte p) (StringValue s) = (int (RuneCountInString s) \<ge> p)"
| "runTag rx (Gte p) (IntValue n) = (n \<ge> p)"
| "runTag rx (Lte p) (StringValue s) = (int (RuneCountInString s) \<le> p)"
| "runTag rx (Lte p) (IntValue n) = (n \<le> p)"

text \<open>
  The validator runs the tags of one field in the order they are written and stops at
  the first that fails: a field contributes at most one error, the first failing tag.
\<close>

fun traverseField :: "(string \<Rightarrow> bool) \<Rightarrow> Value \<Rightarrow> Tag list \<Rightarrow> Tag option" where
  "traverseField rx v [] = None"
| "traverseField rx v (t # ts) = (if runTag rx t v then traverseField rx v ts else Some t)"

datatype Field = FieldName | FieldEmail | FieldAge

text \<open>The tagged fields of \<^verbatim>\<open>User\<close> in declaration order; \<^verbatim>\<open>ID\<close> carries no tag.\<close>

definition taggedFields :: "Field list" where
  "taggedFields = [FieldName, FieldEmail, FieldAge]"

fun fieldTags :: "Field \<Rightarrow> Tag list" where
  "fieldTags FieldName = [Required, Min 2, Max 100]"
| "fieldTags FieldEmail = [Required, EmailTag]"
| "fieldTags FieldAge = [Gte 0, Lte 130]"

fun fieldValue :: "User \<Rightarrow> Field \<Rightarrow> Value" where
  "fieldValue u FieldName = StringValue (Name u)"
| "fieldValue u FieldEmail = StringValue (Email u)"
| "fieldValue u FieldAge = IntValue (Age u)"

text \<open>
  \<^verbatim>\<open>validate.Struct(user)\<close>: every tagged field is traversed, the errors are
  collected in field order; the empty list is the \<^verbatim>\<open>nil\<close> error.
\<close>

definition Struct :: "(string \<Rightarrow> bool) \<Rightarrow> User \<Rightarrow> (Field \<times> Tag) list" where
  "Struct rx u =
     List.map_filter
       (\<lambda>f. map_option (Pair f) (traverseField rx (fieldValue u f) (fieldTags f))) taggedFields"

subsection \<open>json.Decoder.Decode\<close>

text \<open>
  A request body, by what \<^verbatim>\<open>Decode\<close> into a fresh zero-valued struct makes of it:
  \<^item> \<open>Malformed\<close>: no complete JSON value can be read (a syntax error, an empty or a
    truncated body); the decoder fails before it stores anything.
  \<^item> \<open>Mistyped v\<close>: a JSON value is read, a part of it does not fit the struct;
    the members that fit are stored, which leaves \<open>v\<close>, and an error is returned.
  \<^item> \<open>WellTyped v\<close>: the first JSON value of the body is read and stored, which
    leaves \<open>v\<close>; no error. \<^verbatim>\<open>Decode\<close> does not read past that value, so a body with
    text after a complete value is of this kind.
\<close>

datatype 'a Body = Malformed | Mistyped 'a | WellTyped 'a

datatype DecodeError = SyntaxError | UnmarshalTypeError

fun Decode :: "'a Body \<Rightarrow> 'a \<Rightarrow> 'a \<times> DecodeError option" where
  "Decode Malformed target = (target, Some SyntaxError)"
| "Decode (Mistyped v) target = (v, Some UnmarshalTypeError)"
| "Decode (WellTyped v) target = (v, None)"

subsection \<open>The store: go-pg over the table \<^verbatim>\<open>users\<close>\<close>

text \<open>
  The table has the columns \<^verbatim>\<open>id\<close> (primary key, filled from a sequence),
  \<^verbatim>\<open>name\<close>, \<^verbatim>\<open>email\<close> and \<^verbatim>\<open>age\<close>. None of the struct fields carries a
  \<^verbatim>\<open>pg\<close> tag, so go-pg writes a Go zero value as SQL \<^verbatim>\<open>NULL\<close> and reads
  \<^verbatim>\<open>NULL\<close> back as the zero value. The rows are kept in the order the store returns
  them; the sequence is the last value it handed out.
\<close>

record Row =
  col_id :: int
  col_name :: "string option"
  col_email :: "string option"
  col_age :: "int option"

record DB =
  users :: "Row list"
  users_id_seq :: nat

definition nullZeroString :: "string \<Rightarrow> string option" where
  "nullZeroString s = (if s = [] then None else Some s)"

definition nullZeroInt :: "int \<Rightarrow> int option" where
  "nullZeroInt n = (if n = 0 then None else Some n)"

definition scanString :: "string option \<Rightarrow> string" where
  "scanString c = (case c of None \<Rightarrow> [] | Some s \<Rightarrow> s)"

definition scanInt :: "int option \<Rightarrow> int" where
  "scanInt c = (case c of None \<Rightarrow> 0 | Some n \<Rightarrow> n)"

definition toRow :: "User \<Rightarrow> Row" where
  "toRow u = \<lparr>col_id = ID u, col_name = nullZeroString (Name u),
              col_email = nullZeroString (Email u), col_age = nullZeroInt (Age u)\<rparr>"

definition scan :: "Row \<Rightarrow> User" where
  "scan r = \<lparr>ID = col_id r, Name = scanString (col_name r),
             Email = scanString (col_email r), Age = scanInt (col_age r)\<rparr>"

text \<open>
  What a store call can return as its error. \<open>Fault\<close> stands for every failure
  that the model of the table does not decide (the connection, the server, a value the
  server does not accept); whether a call hits one is the parameter \<open>fault\<close> of each
  operation, \<open>None\<close> for a call that the store carries out.
\<close>

datatype StoreError =
  ErrNoRows | ErrMultiRows | UniqueViolation | SequenceExhausted
  | NegativeOffset | NegativeLimit | Fault string

text \<open>
  \<^verbatim>\<open>db.Model(&user).Insert()\<close>: a zero \<^verbatim>\<open>ID\<close> is sent as \<^verbatim>\<open>DEFAULT\<close> and the
  sequence supplies the key, any other \<^verbatim>\<open>ID\<close> is sent as it is; a key already in the
  table is refused. The generated columns are read back into the struct.
\<close>

definition Insert :: "string option \<Rightarrow> DB \<Rightarrow> User \<Rightarrow> (StoreError + User) \<times> DB" where
  "Insert fault db u =
     (case fault of
        Some m \<Rightarrow> (Inl (Fault m), db)
      | None \<Rightarrow>
          if ID u = 0 \<and> int (users_id_seq db) + 1 > 2 ^ 63 - 1 then (Inl SequenceExhausted, db)
          else
            let pk = (if ID u = 0 then int (users_id_seq db) + 1 else ID u);
                db1 = (if ID u = 0 then db\<lparr>users_id_seq := users_id_seq db + 1\<rparr> else db)
            in if pk \<in> set (map col_id (users db)) then (Inl UniqueViolation, db1)
               else (Inr (u\<lparr>ID := pk\<rparr>),
                     db1\<lparr>users := users db @ [toRow (u\<lparr>ID := pk\<rparr>)]\<rparr>))"

text \<open>
  The condition of \<^verbatim>\<open>WherePK()\<close> on a model \<^verbatim>\<open>&User{ID: pk}\<close>: the key is
  written like any field, so a zero key is written as \<^verbatim>\<open>NULL\<close> and matches no row.
\<close>

definition wherePK :: "int \<Rightarrow> Row \<Rightarrow> bool" where
  "wherePK pk r = (pk \<noteq> 0 \<and> col_id r = pk)"

text \<open>
  \<^verbatim>\<open>db.Model(user).WherePK().Select()\<close> on a single struct expects one row:
  none is \<^verbatim>\<open>pg.ErrNoRows\<close>, more than one is \<^verbatim>\<open>pg.ErrMultiRows\<close>.
\<close>

definition SelectPK :: "string option \<Rightarrow> DB \<Rightarrow> int \<Rightarrow> StoreError + User" where
  "SelectPK fault db pk =
     (case fault of
        Some m \<Rightarrow> Inl (Fault m)
      | None \<Rightarrow>
          (case filter (wherePK pk) (users db) of
             [] \<Rightarrow> Inl ErrNoRows
           | [r] \<Rightarrow> Inr (scan r)
           | _ \<Rightarrow> Inl ErrMultiRows))"

text \<open>
  \<^verbatim>\<open>db.Model(user).WherePK().Delete()\<close> has no \<^verbatim>\<open>RETURNING\<close> clause: it returns
  the number of rows the statement affected and no error when that number is 0.
\<close>

definition DeletePK :: "string option \<Rightarrow> DB \<Rightarrow> int \<Rightarrow> (StoreError + nat) \<times> DB" where
  "DeletePK fault db pk =
     (case fault of
        Some m \<Rightarrow> (Inl (Fault m), db)
      | None \<Rightarrow>
          (Inr (length (filter (wherePK pk) (users db))),
           db\<lparr>users := filter (\<lambda>r. \<not> wherePK pk r) (users db)\<rparr>))"

text \<open>
  \<^verbatim>\<open>db.Model(&user).Where("id = ?", id).Update()\<close> sets every column but the key, in
  the rows whose \<^verbatim>\<open>id\<close> equals the argument; like \<^verbatim>\<open>Delete\<close> it returns the number
  of rows affected and no error when that number is 0.
\<close>

definition setColumns :: "User \<Rightarrow> Row \<Rightarrow> Row" where
  "setColumns u r = r\<lparr>col_name := nullZeroString (Name u),
                      col_email := nullZeroString (Email u), col_age := nullZeroInt (Age u)\<rparr>"

definition Update :: "string option \<Rightarrow> DB \<Rightarrow> User \<Rightarrow> int \<Rightarrow> (StoreError + nat) \<times> DB" where
  "Update fault db u pk =
     (case fault of
        Some m \<Rightarrow> (Inl (Fault m), db)
      | None \<Rightarrow>
          (Inr (length (filter (\<lambda>r. col_id r = pk) (users db))),
           db\<lparr>users := map (\<lambda>r. if col_id r = pk then setColumns u r else r) (users db)\<rparr>))"

text \<open>
  The query \<^verbatim>\<open>getUsers\<close> builds: the optional conditions \<^verbatim>\<open>name = ?\<close> and
  \<^verbatim>\<open>age = ?\<close>, the offset and the limit. A column that is \<^verbatim>\<open>NULL\<close> equals no value.
  go-pg leaves a zero offset or limit out of the statement; the server refuses a
  negative one.
\<close>

record Query =
  where_name :: "string option"
  where_age :: "int option"
  offset :: int
  limit :: int

definition matches :: "Query \<Rightarrow> Row \<Rightarrow> bool" where
  "matches q r =
     ((case where_name q of None \<Rightarrow> True | Some n \<Rightarrow> col_name r = Some n) \<and>
      (case where_age q of None \<Rightarrow> True | Some a \<Rightarrow> col_age r = Some a))"

definition Select :: "string option \<Rightarrow> DB \<Rightarrow> Query \<Rightarrow> StoreError + User list" where
  "Select fault db q =
     (case fault of
        Some m \<Rightarrow> Inl (Fault m)
      | None \<Rightarrow>
          if offset q < 0 then Inl NegativeOffset
          else if limit q < 0 then Inl NegativeLimit
          else
            let rs = drop (nat (offset q)) (filter (matches q) (users db))
            in Inr (map scan (if limit q = 0 then rs else take (nat (limit q)) rs)))"

section \<open>The handlers\<close>

text \<open>
  A response is the status and what was written as the body. \<open>Text m\<close> is the message
  given to \<^verbatim>\<open>http.Error\<close>; \<open>StoreErrorText e\<close> and \<open>ValidationText es\<close> are
  \<^verbatim>\<open>err.Error()\<close> of a store error and of the validator's errors; the other three are
  what \<^verbatim>\<open>json.NewEncoder(w).Encode\<close> was given. A handler that writes a body without
  setting a status answers 200.
\<close>

datatype Payload =
  Text string
  | StoreErrorText StoreError
  | ValidationText "(Field \<times> Tag) list"
  | UserJSON User
  | UsersJSON "User list"
  | MapJSON "(string \<times> string) list"

datatype Response = Response (status: nat) (payload: Payload)

text \<open>
  \<^verbatim>\<open>getUsers\<close>. The four arguments are the query parameters \<^verbatim>\<open>page\<close>,
  \<^verbatim>\<open>limit\<close>, \<^verbatim>\<open>name\<close> and \<^verbatim>\<open>age\<close> as \<^verbatim>\<open>r.URL.Query().Get\<close> returns them: the
  empty string for a parameter that is absent.
\<close>

definition pageOf :: "string \<Rightarrow> int" where
  "pageOf pageStr = (case Atoi pageStr of (page, None) \<Rightarrow> page | (page, Some err) \<Rightarrow> 1)"

definition limitOf :: "string \<Rightarrow> int" where
  "limitOf limitStr = (case Atoi limitStr of (lim, None) \<Rightarrow> lim | (lim, Some err) \<Rightarrow> 10)"

definition usersQuery :: "string \<Rightarrow> string \<Rightarrow> string \<Rightarrow> string \<Rightarrow> Query" where
  "usersQuery pageStr limitStr name ageStr =
     \<lparr>where_name = (if name \<noteq> [] then Some name else None),
      where_age = (if ageStr \<noteq> [] then Some (fst (Atoi ageStr)) else None),
      offset = wrap64 (wrap64 (pageOf pageStr - 1) * limitOf limitStr),
      limit = limitOf limitStr\<rparr>"

definition getUsers :: "string option \<Rightarrow> DB \<Rightarrow> string \<Rightarrow> string \<Rightarrow> string \<Rightarrow> string \<Rightarrow> Response" where
  "getUsers fault db pageStr limitStr name ageStr =
     (case Select fault db (usersQuery pageStr limitStr name ageStr) of
        Inl err \<Rightarrow> Response 500 (StoreErrorText err)
      | Inr us \<Rightarrow> Response 200 (UsersJSON us))"

text \<open>\<^verbatim>\<open>getUser\<close>; \<open>idStr\<close> is the path parameter.\<close>

definition getUser :: "string option \<Rightarrow> DB \<Rightarrow> string \<Rightarrow> Response" where
  "getUser fault db idStr =
     (let id = fst (Atoi idStr)
      in case SelectPK fault db id of
           Inl err \<Rightarrow> Response 404 (Text ''User not found'')
         | Inr user \<Rightarrow> Response 200 (UserJSON user))"

text \<open>\<^verbatim>\<open>createUser\<close>: the error of \<^verbatim>\<open>Decode\<close> is dropped.\<close>

definition createUser ::
  "(string \<Rightarrow> bool) \<Rightarrow> string option \<Rightarrow> DB \<Rightarrow> User Body \<Rightarrow> Response \<times> DB" where
  "createUser rx fault db body =
     (let user = fst (Decode body zeroUser)
      in case Struct rx user of
           e # es \<Rightarrow> (Response 400 (ValidationText (e # es)), db)
         | [] \<Rightarrow>
             (case Insert fault db user of
                (Inl err, db') \<Rightarrow> (Response 500 (StoreErrorText err), db')
              | (Inr user', db') \<Rightarrow> (Response 200 (UserJSON user'), db')))"

text \<open>\<^verbatim>\<open>updateUser\<close>: the result of \<^verbatim>\<open>Update\<close>, the number of rows, is dropped.\<close>

definition updateUser ::
  "(string \<Rightarrow> bool) \<Rightarrow> string option \<Rightarrow> DB \<Rightarrow> string \<Rightarrow> User Body \<Rightarrow> Response \<times> DB" where
  "updateUser rx fault db idStr body =
     (let id = fst (Atoi idStr);
          user = fst (Decode body zeroUser)
      in case Struct rx user of
           e # es \<Rightarrow> (Response 400 (ValidationText (e # es)), db)
         | [] \<Rightarrow>
             (let user' = user\<lparr>ID := id\<rparr>
              in case Update fault db user' id of
                   (Inl err, db') \<Rightarrow> (Response 500 (StoreErrorText err), db')
                 | (Inr n, db') \<Rightarrow> (Response 200 (UserJSON user'), db')))"

text \<open>\<^verbatim>\<open>deleteUser\<close>: the result of \<^verbatim>\<open>Delete\<close>, the number of rows, is dropped.\<close>

definition deleteUser :: "string option \<Rightarrow> DB \<Rightarrow> string \<Rightarrow> Response \<times> DB" where
  "deleteUser fault db idStr =
     (let id = fst (Atoi idStr)
      in case DeletePK fault db id of
           (Inl err, db') \<Rightarrow> (Response 404 (Text ''User not found''), db')
         | (Inr n, db') \<Rightarrow> (Response 200 (MapJSON [(''message'', ''User deleted'')]), db'))"

text \<open>\<^verbatim>\<open>loginHandler\<close>.\<close>

definition loginHandler :: "AuthRequest Body \<Rightarrow> Response" where
  "loginHandler body =
     (case Decode body zeroAuthRequest of
        (authReq, Some err) \<Rightarrow> Response 400 (Text ''Invalid request'')
      | (authReq, None) \<Rightarrow>
          if Username authReq = ''user'' \<and> Password authReq = ''password''
          then Response 200 (MapJSON [(''token'', ''your_token_here'')])
          else Response 401 (Text ''Unauthorized''))"

section \<open>The specification's vocabulary\<close>

text \<open>
  The constraints on a user as the data model words them: the name present with a
  length from 2 to 100, the email present and of valid syntax, the age from 0 to 130.
  The length is the number of runes, as the validator counts it.
\<close>

definition satisfiesConstraints :: "(string \<Rightarrow> bool) \<Rightarrow> User \<Rightarrow> bool" where
  "satisfiesConstraints rx u =
     (Name u \<noteq> [] \<and> 2 \<le> RuneCountInString (Name u) \<and> RuneCountInString (Name u) \<le> 100 \<and>
      Email u \<noteq> [] \<and> rx (Email u) \<and>
      0 \<le> Age u \<and> Age u \<le> 130)"

text \<open>
  The full set of violated field/rule pairs: every tag of every field that the field's
  value fails, whatever the tags before it did.
\<close>

definition violatedPairs :: "(string \<Rightarrow> bool) \<Rightarrow> User \<Rightarrow> (Field \<times> Tag) list" where
  "violatedPairs rx u =
     concat (map (\<lambda>f. map (Pair f) (filter (\<lambda>t. \<not> runTag rx t (fieldValue u f)) (fieldTags f)))
       taggedFields)"

text \<open>
  A stand-in for the library's regular expression, for evaluating the theorems at
  concrete inputs: it accepts the strings that hold an at sign.
\<close>

definition hasAt :: "string \<Rightarrow> bool" where
  "hasAt s = (CHR ''@'' \<in> set s)"

text \<open>
  The payloads of the two sample requests in the comments of \<^verbatim>\<open>main.go\<close>, a
  payload that breaks all three constraints, the empty table, and the table that holds
  the first sample user alone.
\<close>

definition johnDoe :: User where
  "johnDoe = \<lparr>ID = 0, Name = ''John Doe'', Email = ''johndoe@example.com'', Age = 30\<rparr>"

definition badUser :: User where
  "badUser = \<lparr>ID = 0, Name = ''J'', Email = ''not-an-email'', Age = 200\<rparr>"


definition emptyDB :: DB where
  "emptyDB = \<lparr>users = [], users_id_seq = 0\<rparr>"

definition johnDB :: DB where
  "johnDB = \<lparr>users = [toRow (johnDoe\<lparr>ID := 1\<rparr>)], users_id_seq = 1\<rparr>"

section \<open>Facts about the library models and the handlers\<close>

lemma scan_toRow: "scan (toRow u) = u"
  by (simp add: scan_def toRow_def nullZeroString_def nullZeroInt_def scanString_def scanInt_def)

lemma Struct_explicit:
  "Struct rx u =
     (case traverseField rx (fieldValue u FieldName) (fieldTags FieldName) of
        None \<Rightarrow> [] | Some t \<Rightarrow> [(FieldName, t)]) @
     (case traverseField rx (fieldValue u FieldEmail) (fieldTags FieldEmail) of
        None \<Rightarrow> [] | Some t \<Rightarrow> [(FieldEmail, t)]) @
     (case traverseField rx (fieldValue u FieldAge) (fieldTags FieldAge) of
        None \<Rightarrow> [] | Some t \<Rightarrow> [(FieldAge, t)])"
  by (simp add: Struct_def taggedFields_def List.map_filter_def
      del: fieldTags.simps fieldValue.simps split: option.splits)

lemma traverseField_None_iff:
  "traverseField rx v ts = None \<longleftrightarrow> (\<forall>t \<in> set ts. runTag rx t v)"
  by (induction ts) auto

lemma traverseField_Some_D:
  "traverseField rx v ts = Some t \<Longrightarrow>
     \<exists>pre post. ts = pre @ t # post \<and> (\<forall>t' \<in> set pre. runTag rx t' v) \<and> \<not> runTag rx t v"
proof (induction ts)
  case Nil
  then show ?case by simp
next
  case (Cons a ts)
  show ?case
  proof (cases "runTag rx a v")
    case True
    with Cons obtain pre post where "ts = pre @ t # post" "\<forall>t' \<in> set pre. runTag rx t' v" "\<not> runTag rx t v"
      by auto
    with True have "a # ts = (a # pre) @ t # post \<and> (\<forall>t' \<in> set (a # pre). runTag rx t' v) \<and> \<not> runTag rx t v"
      by simp
    then show ?thesis by blast
  next
    case False
    with Cons.prems have "a = t" by simp
    with False have "a # ts = [] @ t # ts \<and> (\<forall>t' \<in> set []. runTag rx t' v) \<and> \<not> runTag rx t v"
      by simp
    then show ?thesis by blast
  qed
qed

lemma Struct_Nil_iff: "Struct rx u = [] \<longleftrightarrow> satisfiesConstraints rx u"
proof -
  have "Struct rx u = [] \<longleftrightarrow>
      traverseField rx (fieldValue u FieldName) (fieldTags FieldName) = None \<and>
      traverseField rx (fieldValue u FieldEmail) (fieldTags FieldEmail) = None \<and>
      traverseField rx (fieldValue u FieldAge) (fieldTags FieldAge) = None"
    by (simp add: Struct_explicit del: fieldTags.simps fieldValue.simps split: option.splits)
  also have "\<dots> \<longleftrightarrow> satisfiesConstraints rx u"
    by (simp add: traverseField_None_iff satisfiesConstraints_def)
  finally show ?thesis .
qed

lemma Struct_member_iff:
  "(f, t) \<in> set (Struct rx u) \<longleftrightarrow> traverseField rx (fieldValue u f) (fieldTags f) = Some t"
  by (cases f)
    (auto simp add: Struct_explicit simp del: fieldTags.simps fieldValue.simps traverseField.simps
      split: option.splits)

lemma violatedPairs_member_iff:
  "(f, t) \<in> set (violatedPairs rx u) \<longleftrightarrow> t \<in> set (fieldTags f) \<and> \<not> runTag rx t (fieldValue u f)"
  by (cases f)
    (auto simp add: violatedPairs_def taggedFields_def simp del: fieldTags.simps fieldValue.simps)

lemma maxUint64_nonneg: "0 \<le> maxUint64"
  by (simp add: maxUint64_def)

lemma isDigit_nonneg: "isDigit c \<Longrightarrow> 0 \<le> (of_char c :: int) - 48"
  by (simp add: isDigit_def)

lemma ParseUint_loop_nonneg: "0 \<le> n \<Longrightarrow> 0 \<le> fst (ParseUint_loop n s)"
proof (induction n s rule: ParseUint_loop.induct)
  case (1 n)
  then show ?case by simp
next
  case (2 n c cs)
  show ?case
  proof (cases "isDigit c")
    case False
    then show ?thesis by simp
  next
    case True
    then have d: "0 \<le> n * 10 + (of_char c - 48)"
      using "2.prems" isDigit_nonneg [of c] by simp
    show ?thesis
    proof (cases "n \<ge> maxUint64 div 10 + 1 \<or> n * 10 + (of_char c - 48) > maxUint64")
      case True
      with \<open>isDigit c\<close> show ?thesis using maxUint64_nonneg by auto
    next
      case False
      with \<open>isDigit c\<close> d "2.IH" show ?thesis by simp
    qed
  qed
qed

lemma ParseUint_nonneg: "0 \<le> fst (ParseUint s)"
  by (simp add: ParseUint_def ParseUint_loop_nonneg)

lemma ParseInt_Cons:
  "ParseInt (c # cs) =
     (if snd (ParseUint (if c = CHR ''+'' \<or> c = CHR ''-'' then cs else c # cs)) = Some ErrSyntax
      then (0, Some ErrSyntax)
      else if c \<noteq> CHR ''-'' \<and> fst (ParseUint (if c = CHR ''+'' \<or> c = CHR ''-'' then cs else c # cs)) \<ge> 2 ^ 63
      then (2 ^ 63 - 1, Some ErrRange)
      else if c = CHR ''-'' \<and> fst (ParseUint (if c = CHR ''+'' \<or> c = CHR ''-'' then cs else c # cs)) > 2 ^ 63
      then (- (2 ^ 63), Some ErrRange)
      else (if c = CHR ''-''
            then - fst (ParseUint (if c = CHR ''+'' \<or> c = CHR ''-'' then cs else c # cs))
            else fst (ParseUint (if c = CHR ''+'' \<or> c = CHR ''-'' then cs else c # cs)), None))"
  by (simp add: ParseInt_def Let_def split: prod.splits)

lemma Atoi_range: "- (2 ^ 63) \<le> fst (Atoi s) \<and> fst (Atoi s) \<le> 2 ^ 63 - 1"
proof (cases s)
  case Nil
  then show ?thesis by (simp add: Atoi_def ParseInt_def)
next
  case (Cons c cs)
  define un where "un = fst (ParseUint (if c = CHR ''+'' \<or> c = CHR ''-'' then cs else c # cs))"
  have "0 \<le> un" unfolding un_def by (rule ParseUint_nonneg)
  then show ?thesis
    unfolding Atoi_def Cons ParseInt_Cons un_def [symmetric] by simp
qed

lemma Atoi_syntax_zero: "snd (Atoi s) = Some ErrSyntax \<Longrightarrow> fst (Atoi s) = 0"
proof (cases s)
  case Nil
  then show ?thesis by (simp add: Atoi_def ParseInt_def)
next
  case (Cons c cs)
  assume "snd (Atoi s) = Some ErrSyntax"
  then show ?thesis
    unfolding Atoi_def Cons ParseInt_Cons by (auto split: if_splits)
qed

lemma Atoi_range_sign:
  "snd (Atoi s) = Some ErrRange \<Longrightarrow>
     fst (Atoi s) = (if take 1 s = ''-'' then - (2 ^ 63) else 2 ^ 63 - 1)"
proof (cases s)
  case Nil
  assume "snd (Atoi s) = Some ErrRange"
  with Nil show ?thesis by (simp add: Atoi_def ParseInt_def)
next
  case (Cons c cs)
  assume "snd (Atoi s) = Some ErrRange"
  then show ?thesis
    unfolding Atoi_def Cons ParseInt_Cons by (auto split: if_splits)
qed

lemma Atoi_too_large: "Atoi ''9223372036854775808'' = (2 ^ 63 - 1, Some ErrRange)"
  by (simp add: Atoi_def ParseInt_def ParseUint_def isDigit_def maxUint64_def)

lemma Atoi_too_small: "Atoi ''-9223372036854775809'' = (- (2 ^ 63), Some ErrRange)"
  by (simp add: Atoi_def ParseInt_def ParseUint_def isDigit_def maxUint64_def)

lemma Atoi_empty: "Atoi [] = (0, Some ErrSyntax)"
  by (simp add: Atoi_def ParseInt_def)

lemma wrap64_id: "- (2 ^ 63) \<le> n \<Longrightarrow> n < 2 ^ 63 \<Longrightarrow> wrap64 n = n"
  by (simp add: wrap64_def)

lemma satisfiesConstraints_ID_update:
  "satisfiesConstraints rx (u\<lparr>ID := x\<rparr>) = satisfiesConstraints rx u"
  by (simp add: satisfiesConstraints_def)

lemma satisfiesConstraints_scan_setColumns:
  "satisfiesConstraints rx (scan (setColumns u r)) = satisfiesConstraints rx u"
  by (simp add: satisfiesConstraints_def scan_def setColumns_def nullZeroString_def
      nullZeroInt_def scanString_def scanInt_def)


lemma createUser_invalid:
  "\<not> satisfiesConstraints rx (fst (Decode body zeroUser)) \<Longrightarrow>
     createUser rx fault db body =
       (Response 400 (ValidationText (Struct rx (fst (Decode body zeroUser)))), db)"
  by (simp add: createUser_def Let_def Struct_Nil_iff [symmetric] split: list.splits)

lemma updateUser_invalid:
  "\<not> satisfiesConstraints rx (fst (Decode body zeroUser)) \<Longrightarrow>
     updateUser rx fault db idStr body =
       (Response 400 (ValidationText (Struct rx (fst (Decode body zeroUser)))), db)"
  by (simp add: updateUser_def Let_def Struct_Nil_iff [symmetric] split: list.splits)

lemma createUser_valid:
  "satisfiesConstraints rx (fst (Decode body zeroUser)) \<Longrightarrow>
     createUser rx fault db body =
       (case Insert fault db (fst (Decode body zeroUser)) of
          (Inl err, db') \<Rightarrow> (Response 500 (StoreErrorText err), db')
        | (Inr user', db') \<Rightarrow> (Response 200 (UserJSON user'), db'))"
  by (simp add: createUser_def Let_def Struct_Nil_iff [symmetric])

lemma updateUser_valid:
  "satisfiesConstraints rx (fst (Decode body zeroUser)) \<Longrightarrow>
     updateUser rx fault db idStr body =
       (case Update fault db ((fst (Decode body zeroUser))\<lparr>ID := fst (Atoi idStr)\<rparr>) (fst (Atoi idStr)) of
          (Inl err, db') \<Rightarrow> (Response 500 (StoreErrorText err), db')
        | (Inr n, db') \<Rightarrow>
            (Response 200 (UserJSON ((fst (Decode body zeroUser))\<lparr>ID := fst (Atoi idStr)\<rparr>)), db'))"
  by (simp add: updateUser_def Let_def Struct_Nil_iff [symmetric])

lemma Insert_Inr:
  "Insert fault db u = (Inr u', db') \<Longrightarrow>
     ID u' \<noteq> 0 \<and> u' = u\<lparr>ID := ID u'\<rparr> \<and> ID u' \<notin> set (map col_id (users db)) \<and>
     users db' = users db @ [toRow u']"
  by (auto simp add: Insert_def Let_def split: option.splits if_splits)

lemma Insert_Inl: "Insert fault db u = (Inl e, db') \<Longrightarrow> users db' = users db"
  by (auto simp add: Insert_def Let_def split: option.splits if_splits)

lemma createUser_users:
  "r \<in> set (users (snd (createUser rx fault db body))) \<Longrightarrow>
     r \<in> set (users db) \<or> satisfiesConstraints rx (scan r)"
proof (cases "satisfiesConstraints rx (fst (Decode body zeroUser))")
  case False
  assume "r \<in> set (users (snd (createUser rx fault db body)))"
  with False show ?thesis by (simp add: createUser_invalid)
next
  case True
  assume r: "r \<in> set (users (snd (createUser rx fault db body)))"
  obtain res db' where ins: "Insert fault db (fst (Decode body zeroUser)) = (res, db')"
    by (cases "Insert fault db (fst (Decode body zeroUser))")
  show ?thesis
  proof (cases res)
    case (Inl e)
    with ins True r Insert_Inl [of fault db _ e db'] show ?thesis
      by (simp add: createUser_valid)
  next
    case (Inr u')
    with ins Insert_Inr [of fault db _ u' db']
    have u': "u' = (fst (Decode body zeroUser))\<lparr>ID := ID u'\<rparr>" and
      us: "users db' = users db @ [toRow u']"
      by simp_all
    from u' True have "satisfiesConstraints rx u'"
      by (metis satisfiesConstraints_ID_update)
    with Inr ins True r us show ?thesis
      by (auto simp add: createUser_valid scan_toRow)
  qed
qed

lemma updateUser_users:
  "r \<in> set (users (snd (updateUser rx fault db idStr body))) \<Longrightarrow>
     r \<in> set (users db) \<or> satisfiesConstraints rx (scan r)"
proof (cases "satisfiesConstraints rx (fst (Decode body zeroUser))")
  case False
  assume "r \<in> set (users (snd (updateUser rx fault db idStr body)))"
  with False show ?thesis by (simp add: updateUser_invalid)
next
  case True
  assume "r \<in> set (users (snd (updateUser rx fault db idStr body)))"
  with True show ?thesis
    by (auto simp add: updateUser_valid Update_def satisfiesConstraints_scan_setColumns
        satisfiesConstraints_ID_update split: option.splits if_splits)
qed

lemma createUser_johnDoe:
  "createUser hasAt None emptyDB (WellTyped johnDoe) =
     (Response 200 (UserJSON (johnDoe\<lparr>ID := 1\<rparr>)), johnDB)"
  by (simp add: createUser_def Struct_explicit Insert_def johnDoe_def emptyDB_def johnDB_def
      hasAt_def runeSize_def Let_def)

lemma filter_wherePK_fresh:
  "pk \<notin> set (map col_id rs) \<Longrightarrow> filter (wherePK pk) rs = []"
  by (induction rs) (auto simp add: wherePK_def)

lemma Atoi_1: "Atoi ''1'' = (1, None)"
  by (simp add: Atoi_def ParseInt_def ParseUint_def isDigit_def maxUint64_def)

lemma pageOf_eq: "pageOf s = (if snd (Atoi s) = None then fst (Atoi s) else 1)"
  by (cases "Atoi s") (auto simp add: pageOf_def split: option.splits)

lemma limitOf_eq: "limitOf s = (if snd (Atoi s) = None then fst (Atoi s) else 10)"
  by (cases "Atoi s") (auto simp add: limitOf_def split: option.splits)

lemma pageOf_range: "- (2 ^ 63) \<le> pageOf s \<and> pageOf s \<le> 2 ^ 63 - 1"
  using Atoi_range [of s] by (simp add: pageOf_eq)

lemma usersQuery_offset:
  assumes "1 \<le> pageOf pageStr" and "1 \<le> limitOf limitStr"
    and "(pageOf pageStr - 1) * limitOf limitStr < 2 ^ 63"
  shows "offset (usersQuery pageStr limitStr name ageStr) = (pageOf pageStr - 1) * limitOf limitStr"
proof -
  have "wrap64 (pageOf pageStr - 1) = pageOf pageStr - 1"
    using assms(1) pageOf_range [of pageStr] by (intro wrap64_id) simp_all
  moreover have "0 \<le> (pageOf pageStr - 1) * limitOf limitStr"
    using assms(1,2) by (intro mult_nonneg_nonneg) simp_all
  ultimately show ?thesis
    using assms(3) by (simp add: usersQuery_def wrap64_id)
qed

lemma Atoi_2: "Atoi ''2'' = (2, None)"
  by (simp add: Atoi_def ParseInt_def ParseUint_def isDigit_def maxUint64_def)

lemma Atoi_5: "Atoi ''5'' = (5, None)"
  by (simp add: Atoi_def ParseInt_def ParseUint_def isDigit_def maxUint64_def)

lemma Atoi_0: "Atoi ''0'' = (0, None)"
  by (simp add: Atoi_def ParseInt_def ParseUint_def isDigit_def maxUint64_def)

lemma Atoi_minus_5: "Atoi ''-5'' = (- 5, None)"
  by (simp add: Atoi_def ParseInt_def ParseUint_def isDigit_def maxUint64_def)

lemma Atoi_abc: "Atoi ''abc'' = (0, Some ErrSyntax)"
  by (simp add: Atoi_def ParseInt_def ParseUint_def isDigit_def maxUint64_def)

lemma matches_usersQuery:
  "matches (usersQuery p l name ageStr) r \<longleftrightarrow>
     (name \<noteq> [] \<longrightarrow> col_name r = Some name) \<and>
     (ageStr \<noteq> [] \<longrightarrow> col_age r = Some (fst (Atoi ageStr)))"
  by (simp add: matches_def usersQuery_def)

lemma Select_Inr_subset:
  assumes "Select fault db q = Inr us"
  shows "set us \<subseteq> scan ` {r \<in> set (users db). matches q r}"
proof -
  define rs where "rs = drop (nat (offset q)) (filter (matches q) (users db))"
  have d: "set rs \<subseteq> {r \<in> set (users db). matches q r}"
    unfolding rs_def by (auto dest: in_set_dropD)
  then have t: "set (take m rs) \<subseteq> {r \<in> set (users db). matches q r}" for m
    by (auto dest: in_set_takeD)
  from assms have "us = map scan rs \<or> us = map scan (take (nat (limit q)) rs)"
    by (auto simp add: Select_def Let_def rs_def split: option.splits if_splits)
  then show ?thesis
  proof
    assume "us = map scan rs"
    then have "set us = scan ` set rs" by simp
    with d show ?thesis by (simp only: image_mono)
  next
    assume "us = map scan (take (nat (limit q)) rs)"
    then have "set us = scan ` set (take (nat (limit q)) rs)" by simp
    with t [of "nat (limit q)"] show ?thesis by (simp only: image_mono)
  qed
qed

lemma Atoi_30: "Atoi ''30'' = (30, None)"
  by (simp add: Atoi_def ParseInt_def ParseUint_def isDigit_def maxUint64_def)

text \<open>
  With a reachable store, a valid payload without an id is inserted under the next
  value of the sequence, unless the sequence has run out or that key is taken.
\<close>

lemma createUser_succeeds:
  assumes "satisfiesConstraints rx (fst (Decode body zeroUser))"
    and "ID (fst (Decode body zeroUser)) = 0"
    and "int (users_id_seq db) + 1 \<le> 2 ^ 63 - 1"
    and "int (users_id_seq db) + 1 \<notin> set (map col_id (users db))"
  shows "createUser rx None db body =
           (Response 200 (UserJSON ((fst (Decode body zeroUser))\<lparr>ID := int (users_id_seq db) + 1\<rparr>)),
            db\<lparr>users_id_seq := users_id_seq db + 1,
               users := users db @
                 [toRow ((fst (Decode body zeroUser))\<lparr>ID := int (users_id_seq db) + 1\<rparr>)]\<rparr>)"
  using assms by (simp add: createUser_valid Insert_def Let_def)

text \<open>
  A zero age is stored as \<^verbatim>\<open>NULL\<close>, and \<^verbatim>\<open>NULL\<close> equals no value: a user created
  with age 0 is read back with age 0, and the condition \<^verbatim>\<open>age = 0\<close> does not select
  that user.
\<close>

lemma zero_age_not_selected:
  "getUsers None \<lparr>users = [toRow (johnDoe\<lparr>ID := 1, Age := 0\<rparr>)], users_id_seq = 1\<rparr> [] [] [] ''0'' =
     Response 200 (UsersJSON []) \<and>
   getUser None \<lparr>users = [toRow (johnDoe\<lparr>ID := 1, Age := 0\<rparr>)], users_id_seq = 1\<rparr> ''1'' =
     Response 200 (UserJSON (johnDoe\<lparr>ID := 1, Age := 0\<rparr>))"
  by (simp add: getUsers_def Select_def usersQuery_def pageOf_def limitOf_def Atoi_empty Atoi_0
      Atoi_1 wrap64_def matches_def getUser_def SelectPK_def wherePK_def scan_toRow)
    (simp add: toRow_def nullZeroInt_def)

text \<open>
  \<^verbatim>\<open>getUser\<close> answers 404 whenever no row matches; \<^verbatim>\<open>deleteUser\<close> with a reachable
  store answers 200 whether or not a row matched.
\<close>

lemma getUser_missing_row:
  "filter (wherePK (fst (Atoi idStr))) (users db) = [] \<Longrightarrow>
     getUser fault db idStr = Response 404 (Text ''User not found'')"
  by (simp add: getUser_def SelectPK_def split: option.splits)

lemma deleteUser_reachable_store:
  "deleteUser None db idStr =
     (Response 200 (MapJSON [(''message'', ''User deleted'')]),
      db\<lparr>users := filter (\<lambda>r. \<not> wherePK (fst (Atoi idStr)) r) (users db)\<rparr>)"
  by (simp add: deleteUser_def DeletePK_def)

section \<open>Rows written by create and update\<close>

text \<open>
  Claim C1: every row that \<^verbatim>\<open>createUser\<close> or \<^verbatim>\<open>updateUser\<close> writes satisfies the
  validator's constraints when it is written, and both handlers reach the store only
  after the validation has succeeded. Whatever the request, a row of the table after
  the handler is a row of the table before it or reads back as a user that satisfies
  the constraints; when the decoded payload does not satisfy them the store is left as
  it was.
\<close>

theorem written_rows_satisfy_constraints:
  "(\<forall>r \<in> set (users (snd (createUser rx fault db body))).
      r \<in> set (users db) \<or> satisfiesConstraints rx (scan r)) \<and>
   (\<forall>r \<in> set (users (snd (updateUser rx fault db idStr body))).
      r \<in> set (users db) \<or> satisfiesConstraints rx (scan r)) \<and>
   (\<not> satisfiesConstraints rx (fst (Decode body zeroUser)) \<longrightarrow>
      snd (createUser rx fault db body) = db \<and> snd (updateUser rx fault db idStr body) = db)"
  using createUser_users [of _ rx fault db body] updateUser_users [of _ rx fault db idStr body]
  by (simp add: createUser_invalid updateUser_invalid)

text \<open>
  Claim C1 at the sample request on the empty table: the row written for John Doe is
  new and satisfies the constraints.
\<close>

theorem written_rows_satisfy_constraints_witness:
  "toRow (johnDoe\<lparr>ID := 1\<rparr>) \<in> set (users (snd (createUser hasAt None emptyDB (WellTyped johnDoe)))) \<and>
   toRow (johnDoe\<lparr>ID := 1\<rparr>) \<notin> set (users emptyDB) \<and>
   satisfiesConstraints hasAt (scan (toRow (johnDoe\<lparr>ID := 1\<rparr>)))"
proof -
  have a: "toRow (johnDoe\<lparr>ID := 1\<rparr>) \<in> set (users (snd (createUser hasAt None emptyDB (WellTyped johnDoe))))"
    by (simp add: createUser_johnDoe johnDB_def)
  have b: "toRow (johnDoe\<lparr>ID := 1\<rparr>) \<notin> set (users emptyDB)"
    by (simp add: emptyDB_def)
  from a b written_rows_satisfy_constraints [of hasAt None emptyDB "WellTyped johnDoe" "''1''"]
  show ?thesis by blast
qed

section \<open>Create, then get\<close>

text \<open>
  Claim C2: for a payload that passes the validator, when \<^verbatim>\<open>createUser\<close> answers 200
  with the created user, \<^verbatim>\<open>getUser\<close> on the table it leaves, with a path parameter
  that reads as the returned id, answers 200 with that same user: the returned id and
  the name, email and age of the payload.
\<close>

theorem create_then_get:
  assumes valid: "satisfiesConstraints rx (fst (Decode body zeroUser))"
    and created: "createUser rx fault db body = (Response 200 (UserJSON u'), db')"
    and path: "fst (Atoi idStr) = ID u'"
  shows "getUser None db' idStr = Response 200 (UserJSON u') \<and>
         Name u' = Name (fst (Decode body zeroUser)) \<and>
         Email u' = Email (fst (Decode body zeroUser)) \<and>
         Age u' = Age (fst (Decode body zeroUser))"
proof -
  obtain res db1 where ins: "Insert fault db (fst (Decode body zeroUser)) = (res, db1)"
    by (cases "Insert fault db (fst (Decode body zeroUser))")
  from created valid ins have "res = Inr u'" and "db1 = db'"
    by (auto simp add: createUser_valid split: sum.splits)
  with ins have "Insert fault db (fst (Decode body zeroUser)) = (Inr u', db')"
    by simp
  from Insert_Inr [OF this]
  have nz: "ID u' \<noteq> 0" and u': "u' = (fst (Decode body zeroUser))\<lparr>ID := ID u'\<rparr>"
    and fresh: "ID u' \<notin> set (map col_id (users db))"
    and us: "users db' = users db @ [toRow u']"
    by simp_all
  have "filter (wherePK (ID u')) (users db') = [toRow u']"
    using filter_wherePK_fresh [OF fresh] nz by (simp add: us wherePK_def toRow_def)
  then have get: "getUser None db' idStr = Response 200 (UserJSON u')"
    by (simp add: getUser_def SelectPK_def path scan_toRow)
  have "Name u' = Name (fst (Decode body zeroUser)) \<and>
        Email u' = Email (fst (Decode body zeroUser)) \<and>
        Age u' = Age (fst (Decode body zeroUser))"
    by (subst (1 2 3) u') simp
  with get show ?thesis by simp
qed

text \<open>
  Claim C2 at the sample request on the empty table: John Doe is created with id 1 and
  \<^verbatim>\<open>GET /users/1\<close> returns him.
\<close>

theorem create_then_get_witness:
  "satisfiesConstraints hasAt (fst (Decode (WellTyped johnDoe) zeroUser)) \<and>
   createUser hasAt None emptyDB (WellTyped johnDoe) =
     (Response 200 (UserJSON (johnDoe\<lparr>ID := 1\<rparr>)), johnDB) \<and>
   fst (Atoi ''1'') = ID (johnDoe\<lparr>ID := 1\<rparr>) \<and>
   getUser None johnDB ''1'' = Response 200 (UserJSON (johnDoe\<lparr>ID := 1\<rparr>))"
proof -
  have v: "satisfiesConstraints hasAt (fst (Decode (WellTyped johnDoe) zeroUser))"
    by (simp add: satisfiesConstraints_def johnDoe_def hasAt_def runeSize_def)
  have p: "fst (Atoi ''1'') = ID (johnDoe\<lparr>ID := 1\<rparr>)"
    by (simp add: Atoi_1)
  from create_then_get [OF v createUser_johnDoe p] v p createUser_johnDoe
  show ?thesis by simp
qed

section \<open>Get and delete of a missing row\<close>

text \<open>
  Claim C3: for an id with no matching row \<^verbatim>\<open>getUser\<close> and \<^verbatim>\<open>deleteUser\<close> answer
  404, and \<^verbatim>\<open>deleteUser\<close> answers 200 only when a row was removed. The code does not
  do that for \<^verbatim>\<open>deleteUser\<close>: the handler takes its 404 branch on an error of
  \<^verbatim>\<open>Delete\<close>, and \<^verbatim>\<open>Delete\<close> reports a statement that matched no row through the
  row count, which the handler drops, not through an error. On the empty table
  \<^verbatim>\<open>DELETE /users/1\<close> answers 200 with the message that the user was deleted, where
  \<^verbatim>\<open>GET /users/1\<close> answers 404.
\<close>

theorem deleteUser_missing_row:
  "deleteUser None emptyDB ''1'' =
     (Response 200 (MapJSON [(''message'', ''User deleted'')]), emptyDB) \<and>
   getUser None emptyDB ''1'' = Response 404 (Text ''User not found'')"
  by (simp add: deleteUser_def DeletePK_def getUser_def SelectPK_def emptyDB_def Atoi_1)

section \<open>The validator\<close>

text \<open>
  Claim C4, as the specification states it: the validator returns the full set of
  violated field/rule pairs. It does not. For the zero-valued user the name violates
  \<^verbatim>\<open>required\<close> and \<^verbatim>\<open>min=2\<close> and the email violates \<^verbatim>\<open>required\<close> and
  \<^verbatim>\<open>email\<close>; the validator reports \<^verbatim>\<open>required\<close> for each and nothing else.
\<close>

theorem Struct_not_all_violated_pairs:
  "Struct hasAt zeroUser = [(FieldName, Required), (FieldEmail, Required)] \<and>
   violatedPairs hasAt zeroUser =
     [(FieldName, Required), (FieldName, Min 2), (FieldEmail, Required), (FieldEmail, EmailTag)]"
  by (simp add: Struct_explicit violatedPairs_def taggedFields_def zeroUser_def hasAt_def)

text \<open>
  Claim C4, amended: for every user the validator checks the name, the email and the
  age independently of each other and reports, for each field that violates a rule,
  one pair: the field with the first of its rules, in the order of the struct tag, that
  it violates. The result is empty exactly when the name is present with a length in
  [2,100], the email is present and of valid syntax, and the age is in [0,130].
  In the order of the conjuncts: the empty result; a reported pair is a violated pair
  and every rule before it holds; a field with a violated rule is reported; a field is
  reported once; the pairs of a field depend on that field's value alone.
\<close>

theorem Struct_first_violation_per_field:
  "(Struct rx u = [] \<longleftrightarrow> satisfiesConstraints rx u) \<and>
   (\<forall>t. (f, t) \<in> set (Struct rx u) \<longrightarrow>
      (f, t) \<in> set (violatedPairs rx u) \<and>
      (\<exists>pre post. fieldTags f = pre @ t # post \<and> (\<forall>t' \<in> set pre. runTag rx t' (fieldValue u f)))) \<and>
   (\<forall>t. (f, t) \<in> set (violatedPairs rx u) \<longrightarrow> (\<exists>t'. (f, t') \<in> set (Struct rx u))) \<and>
   (\<forall>t t'. (f, t) \<in> set (Struct rx u) \<and> (f, t') \<in> set (Struct rx u) \<longrightarrow> t = t') \<and>
   (\<forall>u'. fieldValue u' f = fieldValue u f \<longrightarrow>
      filter (\<lambda>e. fst e = f) (Struct rx u') = filter (\<lambda>e. fst e = f) (Struct rx u))"
proof (intro conjI allI impI)
  show "Struct rx u = [] \<longleftrightarrow> satisfiesConstraints rx u"
    by (rule Struct_Nil_iff)
next
  fix t assume "(f, t) \<in> set (Struct rx u)"
  then have tr: "traverseField rx (fieldValue u f) (fieldTags f) = Some t"
    by (simp add: Struct_member_iff)
  from traverseField_Some_D [OF tr] obtain pre post where
    p: "fieldTags f = pre @ t # post" "\<forall>t' \<in> set pre. runTag rx t' (fieldValue u f)"
       "\<not> runTag rx t (fieldValue u f)"
    by blast
  from p show "(f, t) \<in> set (violatedPairs rx u)"
    by (simp add: violatedPairs_member_iff)
  from p show "\<exists>pre post. fieldTags f = pre @ t # post \<and> (\<forall>t' \<in> set pre. runTag rx t' (fieldValue u f))"
    by blast
next
  fix t assume "(f, t) \<in> set (violatedPairs rx u)"
  then have "\<not> (\<forall>t \<in> set (fieldTags f). runTag rx t (fieldValue u f))"
    by (auto simp add: violatedPairs_member_iff)
  then have "traverseField rx (fieldValue u f) (fieldTags f) \<noteq> None"
    by (simp add: traverseField_None_iff)
  then show "\<exists>t'. (f, t') \<in> set (Struct rx u)"
    by (auto simp add: Struct_member_iff)
next
  fix t t' assume "(f, t) \<in> set (Struct rx u) \<and> (f, t') \<in> set (Struct rx u)"
  then show "t = t'" by (auto simp add: Struct_member_iff)
next
  fix u' assume "fieldValue u' f = fieldValue u f"
  then show "filter (\<lambda>e. fst e = f) (Struct rx u') = filter (\<lambda>e. fst e = f) (Struct rx u)"
    by (cases f) (simp_all add: Struct_explicit split: option.splits)
qed

text \<open>
  The amended claim C4 at the zero-valued user, whose name is reported with
  \<^verbatim>\<open>required\<close>, and at the sample user, who satisfies the constraints.
\<close>

theorem Struct_first_violation_per_field_witness:
  "(FieldName, Required) \<in> set (Struct hasAt zeroUser) \<and>
   (FieldName, Required) \<in> set (violatedPairs hasAt zeroUser) \<and>
   (Struct hasAt johnDoe = []) = satisfiesConstraints hasAt johnDoe \<and>
   satisfiesConstraints hasAt johnDoe"
proof -
  have h: "(FieldName, Required) \<in> set (Struct hasAt zeroUser)"
    by (simp add: Struct_explicit zeroUser_def)
  have s: "satisfiesConstraints hasAt johnDoe"
    by (simp add: satisfiesConstraints_def johnDoe_def hasAt_def runeSize_def)
  from h s Struct_first_violation_per_field [of hasAt zeroUser FieldName]
    Struct_first_violation_per_field [of hasAt johnDoe FieldName]
  show ?thesis by blast
qed

section \<open>Pagination\<close>

text \<open>
  Claim C5, as the specification states it: a \<^verbatim>\<open>page\<close> or \<^verbatim>\<open>limit\<close> that is
  non-positive falls back to the default. It does not: \<^verbatim>\<open>getUsers\<close> replaces a
  parameter only when \<^verbatim>\<open>Atoi\<close> returns an error. \<^verbatim>\<open>page=0\<close> stays 0 and
  \<^verbatim>\<open>limit=-5\<close> stays -5; with \<^verbatim>\<open>page=0&limit=5\<close> the offset is -5 and the store
  refuses the query, where \<^verbatim>\<open>page=1&limit=5\<close> returns the first page.
\<close>

theorem nonpositive_page_limit_kept:
  "pageOf ''0'' = 0 \<and> limitOf ''-5'' = - 5 \<and>
   getUsers None johnDB ''0'' ''5'' [] [] = Response 500 (StoreErrorText NegativeOffset) \<and>
   getUsers None johnDB ''1'' ''5'' [] [] = Response 200 (UsersJSON [johnDoe\<lparr>ID := 1\<rparr>])"
  by (simp add: pageOf_def limitOf_def Atoi_0 Atoi_1 Atoi_5 Atoi_minus_5 getUsers_def Select_def
      usersQuery_def wrap64_def johnDB_def matches_def scan_toRow)

text \<open>
  Claim C5, amended: a \<^verbatim>\<open>page\<close> or \<^verbatim>\<open>limit\<close> parameter that is absent or that
  \<^verbatim>\<open>Atoi\<close> cannot parse falls back to its default, 1 for the page and 10 for the
  limit; a parameter that parses is used as it is. With a page and a limit of at
  least 1, and \<open>(page - 1) * limit\<close> within 64 bits, the query skips
  \<open>(page - 1) * limit\<close> of the matching rows and returns at most \<open>limit\<close> of
  them.
\<close>

theorem page_limit_default_on_parse_error:
  "pageOf pageStr = (if snd (Atoi pageStr) = None then fst (Atoi pageStr) else 1) \<and>
   limitOf limitStr = (if snd (Atoi limitStr) = None then fst (Atoi limitStr) else 10) \<and>
   pageOf [] = 1 \<and> limitOf [] = 10 \<and>
   (1 \<le> pageOf pageStr \<and> 1 \<le> limitOf limitStr \<and>
    (pageOf pageStr - 1) * limitOf limitStr < 2 ^ 63 \<longrightarrow>
      getUsers None db pageStr limitStr name ageStr =
        Response 200 (UsersJSON (map scan
          (take (nat (limitOf limitStr))
            (drop (nat ((pageOf pageStr - 1) * limitOf limitStr))
              (filter (matches (usersQuery pageStr limitStr name ageStr)) (users db)))))) \<and>
      length (take (nat (limitOf limitStr))
            (drop (nat ((pageOf pageStr - 1) * limitOf limitStr))
              (filter (matches (usersQuery pageStr limitStr name ageStr)) (users db))))
        \<le> nat (limitOf limitStr))"
proof (intro conjI impI)
  show "pageOf pageStr = (if snd (Atoi pageStr) = None then fst (Atoi pageStr) else 1)"
    by (rule pageOf_eq)
  show "limitOf limitStr = (if snd (Atoi limitStr) = None then fst (Atoi limitStr) else 10)"
    by (rule limitOf_eq)
  show "pageOf [] = 1" by (simp add: pageOf_def Atoi_empty)
  show "limitOf [] = 10" by (simp add: limitOf_def Atoi_empty)
next
  assume h: "1 \<le> pageOf pageStr \<and> 1 \<le> limitOf limitStr \<and>
    (pageOf pageStr - 1) * limitOf limitStr < 2 ^ 63"
  then have off: "offset (usersQuery pageStr limitStr name ageStr) =
      (pageOf pageStr - 1) * limitOf limitStr"
    by (simp add: usersQuery_offset)
  have lim: "limit (usersQuery pageStr limitStr name ageStr) = limitOf limitStr"
    by (simp add: usersQuery_def)
  from h have nn: "0 \<le> (pageOf pageStr - 1) * limitOf limitStr"
    by (intro mult_nonneg_nonneg) simp_all
  have "\<not> (pageOf pageStr - 1) * limitOf limitStr < 0"
    using nn by (simp only: not_less)
  moreover have "\<not> limitOf limitStr < 0" "limitOf limitStr \<noteq> 0"
    using h by simp_all
  ultimately show "getUsers None db pageStr limitStr name ageStr =
        Response 200 (UsersJSON (map scan
          (take (nat (limitOf limitStr))
            (drop (nat ((pageOf pageStr - 1) * limitOf limitStr))
              (filter (matches (usersQuery pageStr limitStr name ageStr)) (users db))))))"
    by (simp add: getUsers_def Select_def off lim Let_def)
next
  show "length (take (nat (limitOf limitStr))
            (drop (nat ((pageOf pageStr - 1) * limitOf limitStr))
              (filter (matches (usersQuery pageStr limitStr name ageStr)) (users db))))
        \<le> nat (limitOf limitStr)"
    by simp
qed

text \<open>
  The amended claim C5 at \<^verbatim>\<open>page=2&limit=5\<close> on the table with one user: the one
  matching row is skipped.
\<close>

theorem page_limit_default_on_parse_error_witness:
  "1 \<le> pageOf ''2'' \<and> 1 \<le> limitOf ''5'' \<and> (pageOf ''2'' - 1) * limitOf ''5'' < 2 ^ 63 \<and>
   getUsers None johnDB ''2'' ''5'' [] [] = Response 200 (UsersJSON [])"
proof -
  have p: "pageOf ''2'' = 2" and l: "limitOf ''5'' = 5"
    by (simp_all add: pageOf_def limitOf_def Atoi_2 Atoi_5)
  then have h: "1 \<le> pageOf ''2'' \<and> 1 \<le> limitOf ''5'' \<and> (pageOf ''2'' - 1) * limitOf ''5'' < 2 ^ 63"
    by simp
  with page_limit_default_on_parse_error [of "''2''" "''5''" johnDB "[]" "[]"]
  have "getUsers None johnDB ''2'' ''5'' [] [] =
        Response 200 (UsersJSON (map scan
          (take (nat (limitOf ''5''))
            (drop (nat ((pageOf ''2'' - 1) * limitOf ''5''))
              (filter (matches (usersQuery ''2'' ''5'' [] [])) (users johnDB))))))"
    by blast
  then have "getUsers None johnDB ''2'' ''5'' [] [] = Response 200 (UsersJSON [])"
    by (simp add: p l johnDB_def)
  with h show ?thesis by simp
qed

section \<open>Filters\<close>

text \<open>
  Claim C6, as the specification states it: an \<^verbatim>\<open>age\<close> parameter that does not
  parse is treated as no age filter. It is not: \<^verbatim>\<open>getUsers\<close> drops the error of
  \<^verbatim>\<open>Atoi\<close> and adds the condition with the value \<^verbatim>\<open>Atoi\<close> returned. On the table
  that holds John Doe, aged 30, \<^verbatim>\<open>age=abc\<close> returns no user, where the request
  without \<^verbatim>\<open>age\<close> returns him.
\<close>

theorem unparsable_age_still_filters:
  "getUsers None johnDB [] [] [] ''abc'' = Response 200 (UsersJSON []) \<and>
   getUsers None johnDB [] [] [] [] = Response 200 (UsersJSON [johnDoe\<lparr>ID := 1\<rparr>])"
  by (simp add: getUsers_def Select_def usersQuery_def pageOf_def limitOf_def Atoi_empty Atoi_abc
      wrap64_def johnDB_def matches_def scan_toRow)
    (simp add: toRow_def johnDoe_def nullZeroInt_def)

text \<open>
  Claim C6, amended: an absent \<^verbatim>\<open>name\<close> or \<^verbatim>\<open>age\<close> parameter imposes no
  constraint and a supplied one matches by equality with the column; an \<^verbatim>\<open>age\<close>
  that is present always adds the condition \<^verbatim>\<open>age = ?\<close>, with the parsed value, with
  0 when \<^verbatim>\<open>Atoi\<close> returns a syntax error, and on a range error with the bound of the
  64-bit range on the side of the sign: the smallest value, \<open>- (2 ^ 63)\<close>, when the
  text starts with a minus sign, the largest, \<open>2 ^ 63 - 1\<close>, when it does not. Every
  user of a 200 response has the supplied name and the age the parameter was read as.
\<close>

theorem age_filter_kept_when_unparsable:
  "where_name (usersQuery p l name ageStr) = (if name = [] then None else Some name) \<and>
   where_age (usersQuery p l name ageStr) = (if ageStr = [] then None else Some (fst (Atoi ageStr))) \<and>
   (snd (Atoi ageStr) = Some ErrSyntax \<longrightarrow> fst (Atoi ageStr) = 0) \<and>
   (snd (Atoi ageStr) = Some ErrRange \<longrightarrow>
      fst (Atoi ageStr) = (if take 1 ageStr = ''-'' then - (2 ^ 63) else 2 ^ 63 - 1)) \<and>
   (matches (usersQuery p l name ageStr) r \<longleftrightarrow>
      (name \<noteq> [] \<longrightarrow> col_name r = Some name) \<and>
      (ageStr \<noteq> [] \<longrightarrow> col_age r = Some (fst (Atoi ageStr)))) \<and>
   (getUsers fault db p l name ageStr = Response 200 (UsersJSON us) \<longrightarrow>
      (\<forall>u \<in> set us. (name \<noteq> [] \<longrightarrow> Name u = name) \<and>
                      (ageStr \<noteq> [] \<longrightarrow> Age u = fst (Atoi ageStr))))"
proof (intro conjI impI ballI)
  show "where_name (usersQuery p l name ageStr) = (if name = [] then None else Some name)"
    by (simp add: usersQuery_def)
  show "where_age (usersQuery p l name ageStr) = (if ageStr = [] then None else Some (fst (Atoi ageStr)))"
    by (simp add: usersQuery_def)
  show "matches (usersQuery p l name ageStr) r \<longleftrightarrow>
      (name \<noteq> [] \<longrightarrow> col_name r = Some name) \<and>
      (ageStr \<noteq> [] \<longrightarrow> col_age r = Some (fst (Atoi ageStr)))"
    by (rule matches_usersQuery)
next
  assume "snd (Atoi ageStr) = Some ErrSyntax"
  then show "fst (Atoi ageStr) = 0" by (rule Atoi_syntax_zero)
next
  assume "snd (Atoi ageStr) = Some ErrRange"
  then show "fst (Atoi ageStr) = (if take 1 ageStr = ''-'' then - (2 ^ 63) else 2 ^ 63 - 1)"
    by (rule Atoi_range_sign)
next
  fix u
  assume g: "getUsers fault db p l name ageStr = Response 200 (UsersJSON us)" and u: "u \<in> set us"
  from g have "Select fault db (usersQuery p l name ageStr) = Inr us"
    by (simp add: getUsers_def split: sum.splits)
  from Select_Inr_subset [OF this] u obtain r where
    r: "u = scan r" "matches (usersQuery p l name ageStr) r"
    by auto
  {
    assume "name \<noteq> []"
    with r show "Name u = name"
      by (simp add: matches_usersQuery scan_def scanString_def)
  }
  {
    assume "ageStr \<noteq> []"
    with r show "Age u = fst (Atoi ageStr)"
      by (simp add: matches_usersQuery scan_def scanInt_def)
  }
qed

text \<open>
  The amended claim C6: \<^verbatim>\<open>abc\<close> is a syntax error and is read as 0; one more
  than the largest 64-bit value is a range error and is read as the largest value, one
  less than the smallest as the smallest; the request \<^verbatim>\<open>name=John Doe&age=30\<close>
  returns John Doe.
\<close>

theorem age_filter_kept_when_unparsable_witness:
  "snd (Atoi ''abc'') = Some ErrSyntax \<and> fst (Atoi ''abc'') = 0 \<and>
   snd (Atoi ''9223372036854775808'') = Some ErrRange \<and>
   where_age (usersQuery [] [] [] ''9223372036854775808'') = Some 9223372036854775807 \<and>
   snd (Atoi ''-9223372036854775809'') = Some ErrRange \<and>
   where_age (usersQuery [] [] [] ''-9223372036854775809'') = Some (- 9223372036854775808) \<and>
   getUsers None johnDB [] [] ''John Doe'' ''30'' = Response 200 (UsersJSON [johnDoe\<lparr>ID := 1\<rparr>]) \<and>
   Name (johnDoe\<lparr>ID := 1\<rparr>) = ''John Doe'' \<and> Age (johnDoe\<lparr>ID := 1\<rparr>) = fst (Atoi ''30'')"
proof -
  have e: "snd (Atoi ''abc'') = Some ErrSyntax" by (simp add: Atoi_abc)
  have hi: "snd (Atoi ''9223372036854775808'') = Some ErrRange" by (simp add: Atoi_too_large)
  have lo: "snd (Atoi ''-9223372036854775809'') = Some ErrRange" by (simp add: Atoi_too_small)
  have g: "getUsers None johnDB [] [] ''John Doe'' ''30'' =
      Response 200 (UsersJSON [johnDoe\<lparr>ID := 1\<rparr>])"
    by (simp add: getUsers_def Select_def usersQuery_def pageOf_def limitOf_def Atoi_empty Atoi_30
        wrap64_def johnDB_def matches_def scan_toRow)
      (simp add: toRow_def johnDoe_def nullZeroInt_def nullZeroString_def)
  from e age_filter_kept_when_unparsable [of "[]" "[]" "[]" "''abc''"]
  have z: "fst (Atoi ''abc'') = 0" by blast
  from hi age_filter_kept_when_unparsable [of "[]" "[]" "[]" "''9223372036854775808''"]
  have "where_age (usersQuery [] [] [] ''9223372036854775808'') =
          Some (fst (Atoi ''9223372036854775808'')) \<and>
        fst (Atoi ''9223372036854775808'') =
          (if take 1 ''9223372036854775808'' = ''-'' then - (2 ^ 63) else 2 ^ 63 - 1)"
    by simp
  then have h: "where_age (usersQuery [] [] [] ''9223372036854775808'') = Some 9223372036854775807"
    by simp
  from lo age_filter_kept_when_unparsable [of "[]" "[]" "[]" "''-9223372036854775809''"]
  have "where_age (usersQuery [] [] [] ''-9223372036854775809'') =
          Some (fst (Atoi ''-9223372036854775809'')) \<and>
        fst (Atoi ''-9223372036854775809'') =
          (if take 1 ''-9223372036854775809'' = ''-'' then - (2 ^ 63) else 2 ^ 63 - 1)"
    by simp
  then have l: "where_age (usersQuery [] [] [] ''-9223372036854775809'') = Some (- 9223372036854775808)"
    by simp
  from g age_filter_kept_when_unparsable
    [of "[]" "[]" "''John Doe''" "''30''" _ None johnDB "[johnDoe\<lparr>ID := 1\<rparr>]"]
  have "Name (johnDoe\<lparr>ID := 1\<rparr>) = ''John Doe'' \<and> Age (johnDoe\<lparr>ID := 1\<rparr>) = fst (Atoi ''30'')"
    by simp
  with e z hi h lo l g show ?thesis by simp
qed

section \<open>Create with a body the decoder rejects\<close>

text \<open>
  Claim C7, as the specification states it: a Create request with a malformed body is
  decoded to the zero-valued user, answered 400, and persists no row. That holds only
  for the bodies on which the decoder stores nothing. \<^verbatim>\<open>createUser\<close> drops the
  decoder's error and validates what the decoder stored: for the sample payload with
  \<^verbatim>\<open>"age": "30"\<close>, a string where a number is due, the decoder returns an error after
  it has stored the name and the email; the user is not the zero-valued one, passes the
  validation with age 0, and the handler answers 200 and persists the row.
\<close>

theorem createUser_decode_error_persisted:
  "snd (Decode (Mistyped (johnDoe\<lparr>Age := 0\<rparr>)) zeroUser) = Some UnmarshalTypeError \<and>
   fst (Decode (Mistyped (johnDoe\<lparr>Age := 0\<rparr>)) zeroUser) \<noteq> zeroUser \<and>
   createUser hasAt None emptyDB (Mistyped (johnDoe\<lparr>Age := 0\<rparr>)) =
     (Response 200 (UserJSON (johnDoe\<lparr>ID := 1, Age := 0\<rparr>)),
      \<lparr>users = [toRow (johnDoe\<lparr>ID := 1, Age := 0\<rparr>)], users_id_seq = 1\<rparr>)"
  by (simp add: createUser_def Struct_explicit Insert_def johnDoe_def emptyDB_def zeroUser_def
      hasAt_def runeSize_def Let_def)

text \<open>
  Claim C7, amended: \<^verbatim>\<open>createUser\<close> surfaces no decoder error and validates whatever
  the decoder stored. Two bodies that leave the same user get the same answer and the
  same store, whether the decoder returned an error or not. A body that leaves the
  zero-valued user, as every body does from which no complete JSON value can be read,
  is answered 400 with the validator's message for the missing name and email, and no
  row is persisted. The store is unchanged on every validation failure, whatever the
  body.
\<close>

theorem createUser_validates_what_was_decoded:
  "(fst (Decode body zeroUser) = fst (Decode body' zeroUser) \<longrightarrow>
      createUser rx fault db body = createUser rx fault db body') \<and>
   (fst (Decode body zeroUser) = zeroUser \<longrightarrow>
      createUser rx fault db body =
        (Response 400 (ValidationText [(FieldName, Required), (FieldEmail, Required)]), db)) \<and>
   fst (Decode Malformed zeroUser) = zeroUser \<and>
   snd (Decode Malformed zeroUser) = Some SyntaxError \<and>
   createUser rx fault db Malformed =
     (Response 400 (ValidationText [(FieldName, Required), (FieldEmail, Required)]), db) \<and>
   (\<not> satisfiesConstraints rx (fst (Decode body zeroUser)) \<longrightarrow>
      createUser rx fault db body =
        (Response 400 (ValidationText (Struct rx (fst (Decode body zeroUser)))), db))"
proof (intro conjI impI)
  assume "fst (Decode body zeroUser) = fst (Decode body' zeroUser)"
  then show "createUser rx fault db body = createUser rx fault db body'"
    by (simp add: createUser_def)
next
  assume "fst (Decode body zeroUser) = zeroUser"
  then show "createUser rx fault db body =
      (Response 400 (ValidationText [(FieldName, Required), (FieldEmail, Required)]), db)"
    by (simp add: createUser_def Struct_explicit zeroUser_def)
next
  show "fst (Decode Malformed zeroUser) = zeroUser" by simp
  show "snd (Decode Malformed zeroUser) = Some SyntaxError" by simp
  show "createUser rx fault db Malformed =
     (Response 400 (ValidationText [(FieldName, Required), (FieldEmail, Required)]), db)"
    by (simp add: createUser_def Struct_explicit zeroUser_def)
next
  assume "\<not> satisfiesConstraints rx (fst (Decode body zeroUser))"
  then show "createUser rx fault db body =
        (Response 400 (ValidationText (Struct rx (fst (Decode body zeroUser)))), db)"
    by (rule createUser_invalid)
qed

text \<open>
  The amended claim C7: the sample payload under a decoder error is handled as the
  same payload without one; a body that stores nothing but returns an error of the
  other kind is answered 400 like the malformed one; the payload that breaks all three
  constraints is answered 400 with the three failing rules, and the table is as it was.
\<close>

theorem createUser_validates_what_was_decoded_witness:
  "fst (Decode (Mistyped johnDoe) zeroUser) = fst (Decode (WellTyped johnDoe) zeroUser) \<and>
   createUser hasAt None emptyDB (Mistyped johnDoe) =
     (Response 200 (UserJSON (johnDoe\<lparr>ID := 1\<rparr>)), johnDB) \<and>
   fst (Decode (Mistyped zeroUser) zeroUser) = zeroUser \<and>
   createUser hasAt None johnDB (Mistyped zeroUser) =
     (Response 400 (ValidationText [(FieldName, Required), (FieldEmail, Required)]), johnDB) \<and>
   \<not> satisfiesConstraints hasAt (fst (Decode (WellTyped badUser) zeroUser)) \<and>
   createUser hasAt None johnDB (WellTyped badUser) =
     (Response 400 (ValidationText [(FieldName, Min 2), (FieldEmail, EmailTag), (FieldAge, Lte 130)]),
      johnDB)"
proof -
  have d: "fst (Decode (Mistyped johnDoe) zeroUser) = fst (Decode (WellTyped johnDoe) zeroUser)"
    by simp
  from d createUser_validates_what_was_decoded
    [of "Mistyped johnDoe" "WellTyped johnDoe" hasAt None emptyDB]
  have a: "createUser hasAt None emptyDB (Mistyped johnDoe) =
      (Response 200 (UserJSON (johnDoe\<lparr>ID := 1\<rparr>)), johnDB)"
    by (simp add: createUser_johnDoe)
  have z: "fst (Decode (Mistyped zeroUser) zeroUser) = zeroUser"
    by simp
  from z createUser_validates_what_was_decoded [of "Mistyped zeroUser" _ hasAt None johnDB]
  have b: "createUser hasAt None johnDB (Mistyped zeroUser) =
      (Response 400 (ValidationText [(FieldName, Required), (FieldEmail, Required)]), johnDB)"
    by blast
  have n: "\<not> satisfiesConstraints hasAt (fst (Decode (WellTyped badUser) zeroUser))"
    by (simp add: satisfiesConstraints_def badUser_def)
  have s: "Struct hasAt (fst (Decode (WellTyped badUser) zeroUser)) =
      [(FieldName, Min 2), (FieldEmail, EmailTag), (FieldAge, Lte 130)]"
    by (simp add: Struct_explicit badUser_def hasAt_def runeSize_def)
  from n createUser_validates_what_was_decoded [of "WellTyped badUser" _ hasAt None johnDB]
  have "createUser hasAt None johnDB (WellTyped badUser) =
      (Response 400 (ValidationText (Struct hasAt (fst (Decode (WellTyped badUser) zeroUser)))), johnDB)"
    by blast
  with s have c: "createUser hasAt None johnDB (WellTyped badUser) =
      (Response 400 (ValidationText [(FieldName, Min 2), (FieldEmail, EmailTag), (FieldAge, Lte 130)]),
       johnDB)"
    by simp
  from d a z b n c show ?thesis by simp
qed

section \<open>Update\<close>



section \<open>Login\<close>

text \<open>
  Claim C9: \<^verbatim>\<open>loginHandler\<close> answers 200 with a non-empty token when the body decodes
  and the credentials are \<^verbatim>\<open>user\<close> and \<^verbatim>\<open>password\<close>, 401 for any other decoded
  pair, and 400 when the decoder returns an error, as it does for a malformed body.
\<close>

theorem loginHandler_responses:
  "(Username a = ''user'' \<and> Password a = ''password'' \<longrightarrow>
      loginHandler (WellTyped a) = Response 200 (MapJSON [(''token'', ''your_token_here'')])) \<and>
   (\<not> (Username a = ''user'' \<and> Password a = ''password'') \<longrightarrow>
      loginHandler (WellTyped a) = Response 401 (Text ''Unauthorized'')) \<and>
   (snd (Decode body zeroAuthRequest) \<noteq> None \<longrightarrow>
      loginHandler body = Response 400 (Text ''Invalid request'')) \<and>
   loginHandler Malformed = Response 400 (Text ''Invalid request'') \<and>
   ''your_token_here'' \<noteq> []"
  by (cases body) (simp_all add: loginHandler_def)

text \<open>
  Claim C9 at the fixed pair, at a pair that differs in one letter's case, and at a
  body the decoder rejects.
\<close>

theorem loginHandler_responses_witness:
  "loginHandler (WellTyped \<lparr>Username = ''user'', Password = ''password''\<rparr>) =
     Response 200 (MapJSON [(''token'', ''your_token_here'')]) \<and>
   loginHandler (WellTyped \<lparr>Username = ''user'', Password = ''Password''\<rparr>) =
     Response 401 (Text ''Unauthorized'') \<and>
   snd (Decode (Mistyped \<lparr>Username = ''user'', Password = []\<rparr>) zeroAuthRequest) \<noteq> None \<and>
   loginHandler (Mistyped \<lparr>Username = ''user'', Password = []\<rparr>) =
     Response 400 (Text ''Invalid request'')"
  using loginHandler_responses [where a = "\<lparr>Username = ''user'', Password = ''password''\<rparr>"]
    loginHandler_responses [where a = "\<lparr>Username = ''user'', Password = ''Password''\<rparr>"]
    loginHandler_responses [where body = "Mistyped \<lparr>Username = ''user'', Password = []\<rparr>"]
  by simp

section \<open>Store errors of get and delete\<close>

text \<open>
  Claim C10: \<^verbatim>\<open>getUser\<close> and \<^verbatim>\<open>deleteUser\<close> answer 404 with
  \<^verbatim>\<open>User not found\<close> for every error of the store call, a failure of the connection
  included, and never answer 500; \<^verbatim>\<open>getUsers\<close>, \<^verbatim>\<open>createUser\<close> and
  \<^verbatim>\<open>updateUser\<close> answer 500 with the error's text when the store fails.
\<close>

theorem store_errors_of_get_and_delete_are_404:
  "getUser (Some m) db idStr = Response 404 (Text ''User not found'') \<and>
   deleteUser (Some m) db idStr = (Response 404 (Text ''User not found''), db) \<and>
   (SelectPK fault db (fst (Atoi idStr)) = Inl e \<longrightarrow>
      getUser fault db idStr = Response 404 (Text ''User not found'')) \<and>
   (fst (DeletePK fault db (fst (Atoi idStr))) = Inl e \<longrightarrow>
      fst (deleteUser fault db idStr) = Response 404 (Text ''User not found'')) \<and>
   status (getUser fault db idStr) \<noteq> 500 \<and>
   status (fst (deleteUser fault db idStr)) \<noteq> 500 \<and>
   getUsers (Some m) db pageStr limitStr name ageStr = Response 500 (StoreErrorText (Fault m)) \<and>
   (satisfiesConstraints rx (fst (Decode body zeroUser)) \<longrightarrow>
      createUser rx (Some m) db body = (Response 500 (StoreErrorText (Fault m)), db) \<and>
      updateUser rx (Some m) db idStr body = (Response 500 (StoreErrorText (Fault m)), db))"
proof (intro conjI impI)
  show "getUser (Some m) db idStr = Response 404 (Text ''User not found'')"
    by (simp add: getUser_def SelectPK_def)
  show "deleteUser (Some m) db idStr = (Response 404 (Text ''User not found''), db)"
    by (simp add: deleteUser_def DeletePK_def)
  show "status (getUser fault db idStr) \<noteq> 500"
    by (simp add: getUser_def Let_def split: sum.splits)
  show "status (fst (deleteUser fault db idStr)) \<noteq> 500"
    by (simp add: deleteUser_def Let_def split: sum.splits prod.splits)
  show "getUsers (Some m) db pageStr limitStr name ageStr = Response 500 (StoreErrorText (Fault m))"
    by (simp add: getUsers_def Select_def)
next
  assume "SelectPK fault db (fst (Atoi idStr)) = Inl e"
  then show "getUser fault db idStr = Response 404 (Text ''User not found'')"
    by (simp add: getUser_def)
next
  assume "fst (DeletePK fault db (fst (Atoi idStr))) = Inl e"
  then show "fst (deleteUser fault db idStr) = Response 404 (Text ''User not found'')"
    by (cases "DeletePK fault db (fst (Atoi idStr))") (simp add: deleteUser_def)
next
  assume v: "satisfiesConstraints rx (fst (Decode body zeroUser))"
  then show "createUser rx (Some m) db body = (Response 500 (StoreErrorText (Fault m)), db)"
    by (simp add: createUser_valid Insert_def)
  from v show "updateUser rx (Some m) db idStr body = (Response 500 (StoreErrorText (Fault m)), db)"
    by (simp add: updateUser_valid Update_def)
qed

text \<open>
  Claim C10 at a missing row for \<^verbatim>\<open>getUser\<close>, and at a refused connection for
  \<^verbatim>\<open>deleteUser\<close> and for \<^verbatim>\<open>createUser\<close> with the sample payload.
\<close>

theorem store_errors_of_get_and_delete_are_404_witness:
  "SelectPK None emptyDB (fst (Atoi ''1'')) = Inl ErrNoRows \<and>
   getUser None emptyDB ''1'' = Response 404 (Text ''User not found'') \<and>
   fst (DeletePK (Some ''connection refused'') johnDB (fst (Atoi ''1''))) =
     Inl (Fault ''connection refused'') \<and>
   fst (deleteUser (Some ''connection refused'') johnDB ''1'') =
     Response 404 (Text ''User not found'') \<and>
   satisfiesConstraints hasAt (fst (Decode (WellTyped johnDoe) zeroUser)) \<and>
   createUser hasAt (Some ''connection refused'') emptyDB (WellTyped johnDoe) =
     (Response 500 (StoreErrorText (Fault ''connection refused'')), emptyDB)"
proof -
  have s: "SelectPK None emptyDB (fst (Atoi ''1'')) = Inl ErrNoRows"
    by (simp add: SelectPK_def emptyDB_def)
  have d: "fst (DeletePK (Some ''connection refused'') johnDB (fst (Atoi ''1''))) =
     Inl (Fault ''connection refused'')"
    by (simp add: DeletePK_def)
  have v: "satisfiesConstraints hasAt (fst (Decode (WellTyped johnDoe) zeroUser))"
    by (simp add: satisfiesConstraints_def johnDoe_def hasAt_def runeSize_def)
  from s d v
    store_errors_of_get_and_delete_are_404
      [where m = "''connection refused''" and db = emptyDB and idStr = "''1''" and fault = None
        and e = ErrNoRows and rx = hasAt and body = "WellTyped johnDoe"]
    store_errors_of_get_and_delete_are_404
      [where m = "''connection refused''" and db = johnDB and idStr = "''1''"
        and fault = "Some ''connection refused''" and e = "Fault ''connection refused''"
        and rx = hasAt and body = "WellTyped johnDoe"]
  show ?thesis by blast
qed

end
